theory Spec2Isabelle
  imports Main
begin

section \<open>Data model of \<open>edificato.py\<close>\<close>

text \<open>
  \<open>EdifTranslation.filter_tags(attrs)\<close> receives the attribute dictionary of one feature
  and returns the tag dictionary of the building, or \<open>None\<close>.

  A field value is a Python object; the ones the code tells apart are strings and
  everything else (\<open>None\<close> stands for the latter: it is never equal to a string literal,
  no \<open>case "..."\<close> pattern matches it, and \<open>str.lower\<close> rejects it).
\<close>

datatype pyval = PyNone | PyStr string

text \<open>The two exceptions the function body can raise.\<close>

datatype py_error = KeyError string | TypeError

text \<open>
  A dictionary is the list of its items in insertion order; \<open>map_of\<close> is the lookup.
  The empty list is the empty dictionary, the only falsy one.
\<close>

type_synonym attrs = "(string \<times> pyval) list"
type_synonym tags = "(string \<times> string) list"

text \<open>\<open>attrs[k]\<close>: the value, or \<open>KeyError\<close> when the key is missing.\<close>

definition getitem :: "attrs \<Rightarrow> string \<Rightarrow> py_error + pyval" where
  "getitem attrs k = (case map_of attrs k of None \<Rightarrow> Inl (KeyError k) | Some v \<Rightarrow> Inr v)"

text \<open>
  \<open>tags[k] = v\<close>: an existing key keeps its position and takes the new value, a new
  key goes to the end.
\<close>

primrec setitem :: "string \<Rightarrow> string \<Rightarrow> tags \<Rightarrow> tags" where
  "setitem k v [] = [(k, v)]"
| "setitem k v (p # ps) = (if fst p = k then (k, v) # ps else p # setitem k v ps)"

text \<open>The assignments of one branch, carried out from first to last.\<close>

primrec setitems :: "(string \<times> string) list \<Rightarrow> tags \<Rightarrow> tags" where
  "setitems [] t = t"
| "setitems (w # ws) t = setitems ws (setitem (fst w) (snd w) t)"

text \<open>
  A Python string is kept as the bytes of its UTF-8 form, so that the literals of the
  source are the literals here.

  \<open>str.lower\<close> works on code points. On ASCII it maps \<open>A\<close>-\<open>Z\<close> to \<open>a\<close>-\<open>z\<close> and
  keeps the rest. Only two code points beyond ASCII have ASCII in their lower-case form:
  U+212A KELVIN SIGN (bytes E2 84 AA) gives \<open>k\<close>, and U+0130 (bytes C4 B0) gives \<open>i\<close>
  followed by U+0307 (bytes CC 87). Every other code point beyond ASCII has a lower-case
  form beyond ASCII as well; its bytes are kept as they are here, which no comparison with
  an ASCII literal can tell apart. Applied to something that is not a string,
  \<open>str.lower\<close> raises \<open>TypeError\<close>.
\<close>

definition lower_char :: "char \<Rightarrow> char" where
  "lower_char c =
     (case map_of (zip ''ABCDEFGHIJKLMNOPQRSTUVWXYZ'' ''abcdefghijklmnopqrstuvwxyz'') c of
        None \<Rightarrow> c
      | Some l \<Rightarrow> l)"

fun lower :: "string \<Rightarrow> string" where
  "lower [] = []"
| "lower (c # cs) =
     (if c = CHR 0xE2 \<and> take 2 cs = [CHR 0x84, CHR 0xAA]
        then CHR ''k'' # lower (drop 2 cs)
      else if c = CHR 0xC4 \<and> take 1 cs = [CHR 0xB0]
        then CHR ''i'' # CHR 0xCC # CHR 0x87 # lower (drop 1 cs)
      else lower_char c # lower cs)"

definition str_lower :: "pyval \<Rightarrow> py_error + string" where
  "str_lower v = (case v of PyNone \<Rightarrow> Inl TypeError | PyStr s \<Rightarrow> Inr (lower s))"

text \<open>Sequencing of statements that may raise: the first exception ends the run.\<close>

fun bind_err :: "py_error + 'a \<Rightarrow> ('a \<Rightarrow> py_error + 'b) \<Rightarrow> py_error + 'b" where
  "bind_err (Inl e) f = Inl e"
| "bind_err (Inr x) f = f x"

section \<open>The stages of \<open>filter_tags\<close>\<close>

text \<open>
  \<^verbatim>\<open>
  if str.lower(attrs["edifc_nome"]) != "unk":
      tags["name"] = attrs["edifc_nome"]
  else:
      tags["name"] = ""
  \<close>
\<close>

definition edifc_nome_tags :: "pyval \<Rightarrow> tags \<Rightarrow> py_error + tags" where
  "edifc_nome_tags nome t =
     bind_err (str_lower nome) (\<lambda>low.
       if low \<noteq> ''unk''
       then (case nome of PyStr s \<Rightarrow> Inr (setitem ''name'' s t) | PyNone \<Rightarrow> Inl TypeError)
       else Inr (setitem ''name'' '''' t))"

definition edifc_nome_stage :: "attrs \<Rightarrow> tags \<Rightarrow> py_error + tags" where
  "edifc_nome_stage attrs t =
     bind_err (getitem attrs ''edifc_nome'') (\<lambda>nome. edifc_nome_tags nome t)"

text \<open>
  \<^verbatim>\<open>
  if attrs["edifc_sot"] == "02":
      tags["location"] = "underground"
      tags["building:levels"] = "0"
      tags["fixme:buildind"] = "Check location, if not verifiable remove geometry"
  \<close>
\<close>

definition edifc_sot_tags :: "pyval \<Rightarrow> tags \<Rightarrow> tags" where
  "edifc_sot_tags sot t =
     (if sot = PyStr ''02''
      then setitems
             [(''location'', ''underground''),
              (''building:levels'', ''0''),
              (''fixme:buildind'', ''Check location, if not verifiable remove geometry'')] t
      else t)"

definition edifc_sot_stage :: "attrs \<Rightarrow> tags \<Rightarrow> py_error + tags" where
  "edifc_sot_stage attrs t =
     bind_err (getitem attrs ''edifc_sot'') (\<lambda>sot. Inr (edifc_sot_tags sot t))"

text \<open>
  A \<open>match\<close> statement whose patterns are string literals: the cases in the order of
  the source, each with its alternatives (\<open>case "0703" | "0704"\<close>) and its body. The
  first case with an alternative equal to the subject is taken; \<open>dflt\<close> is the body
  of \<open>case _\<close>, or nothing when the statement has none.
\<close>

fun match_case :: "(string list \<times> 'a) list \<Rightarrow> 'a \<Rightarrow> pyval \<Rightarrow> 'a" where
  "match_case [] dflt v = dflt"
| "match_case (c # cs) dflt v =
     (if v \<in> set (map PyStr (fst c)) then snd c else match_case cs dflt v)"

text \<open>\<open>match attrs["edifc_ty"]\<close>: the cases, and the assignments of the branch taken.\<close>

definition edifc_ty_cases :: "(string list \<times> (string \<times> string) list) list" where
  "edifc_ty_cases =
     [([''04''], [(''building'', ''house'')]),
      ([''07''],
        [(''building'', ''tower''), (''man_made'', ''tower''), (''tower:type'', ''bell_tower'')]),
      ([''10''], [(''building'', ''castle'')]),
      ([''11''], [(''building'', ''church'')]),
      ([''14''], [(''building'', ''hangar'')]),
      ([''16''], [(''building'', ''temple'')]),
      ([''19''], [(''building'', ''sports_hall'')]),
      ([''21''], [(''building'', ''stadium'')]),
      ([''22''], [(''building'', ''cathedral'')]),
      ([''23''], [(''building'', ''roof''), (''layer'', ''1'')]),
      ([''24''], [(''building'', ''yes''), (''defensive_works'', ''bastion'')]),
      ([''25''], [(''building'', ''yes''), (''historic'', ''citywalls'')])]"

definition edifc_ty_case :: "pyval \<Rightarrow> (string \<times> string) list" where
  "edifc_ty_case v = match_case edifc_ty_cases [(''building'', ''yes'')] v"

definition edifc_ty_stage :: "attrs \<Rightarrow> tags \<Rightarrow> py_error + tags" where
  "edifc_ty_stage attrs t =
     bind_err (getitem attrs ''edifc_ty'') (\<lambda>ty. Inr (setitems (edifc_ty_case ty) t))"

text \<open>
  \<open>match attrs["edifc_uso"]\<close>: the cases, and the assignments of the branch taken; no
  branch, no assignment (the statement has no \<open>case _\<close>).
\<close>

definition edifc_uso_cases :: "(string list \<times> (string \<times> string) list) list" where
  "edifc_uso_cases =
     [([''02''], [(''building'', ''office'')]),
      ([''0201''], [(''amenity'', ''townhall'')]),
      ([''0203''], [(''office'', ''government''), (''admin_level'', ''4'')]),
      ([''030101''], [(''amenity'', ''social_facility'')]),
      ([''030102''], [(''amenity'', ''hospital''), (''healthcare'', ''hospital'')]),
      ([''030103''], [(''amenity'', ''clinic''), (''healthcare'', ''clinic'')]),
      ([''030104''],
        [(''amenity'', ''hospital''), (''healthcare'', ''hospital''),
         (''fixme:classify'',
          ''if it doesn't allows hospitalization it should be tagged as amenity=clinic'')]),
      ([''030301''], [(''amenity'', ''school'')]),
      ([''030302''], [(''amenity'', ''university'')]),
      ([''0304''], [(''amenity'', ''post_office'')]),
      ([''0306''], [(''amenity'', ''police'')]),
      ([''0307''], [(''amenity'', ''fire_station'')]),
      ([''05''], [(''amenity'', ''place_of_worship'')]),
      ([''060101''], [(''aeroway'', ''aerodrome'')]),
      ([''060102''], [(''aeroway'', ''heliport'')]),
      ([''060201''], [(''amenity'', ''bus_station''), (''public_transport'', ''station'')]),
      ([''060202''], [(''amenity'', ''parking''), (''parking'', ''multi-storey'')]),
      ([''060301''], [(''railway'', ''station'')]),
      ([''060404''], [(''aerialway'', ''station'')]),
      ([''0701''], [(''amenity'', ''bank'')]),
      ([''0702''], [(''shop'', ''department_store'')]),
      ([''0703'', ''0704''], [(''shop'', ''supermarket'')]),
      ([''0801''], [(''building'', ''industrial'')]),
      ([''0802'', ''080201'', ''080202'', ''080203'', ''080206''],
        [(''building'', ''service''), (''utility'', ''power'')]),
      ([''0804''], [(''man_made'', ''wastewater_plant'')]),
      ([''0806''], [(''building'', ''service''), (''utility'', ''telecom'')]),
      ([''0901''], [(''building'', ''house'')]),
      ([''0902'', ''0903'', ''0904''], [(''building'', ''farm_auxiliary'')]),
      ([''1001''], [(''building'', ''public'')]),
      ([''100101''], [(''amenity'', ''library'')]),
      ([''100102''], [(''amenity'', ''cinema'')]),
      ([''100103''], [(''amenity'', ''theatre'')]),
      ([''100104''], [(''tourism'', ''museum'')]),
      ([''1002''], [(''building'', ''sports_centre'')]),
      ([''100201''], [(''leisure'', ''swimming_pool''), (''indoor'', ''yes'')]),
      ([''100202''], [(''leisure'', ''sports_hall'')]),
      ([''11''], [(''amenity'', ''prison'')]),
      ([''1201'', ''1202''], [(''building'', ''hotel'')]),
      ([''1203''], [(''tourism'', ''camp_site'')]),
      ([''1204''], [(''tourism'', ''alpine_hut'')])]"

definition edifc_uso_case :: "pyval \<Rightarrow> (string \<times> string) list" where
  "edifc_uso_case v = match_case edifc_uso_cases [] v"

definition edifc_uso_stage :: "attrs \<Rightarrow> tags \<Rightarrow> py_error + tags" where
  "edifc_uso_stage attrs t =
     bind_err (getitem attrs ''edifc_uso'') (\<lambda>uso. Inr (setitems (edifc_uso_case uso) t))"

text \<open>\<open>match attrs["check_geom"]\<close>, with its single branch.\<close>

definition check_geom_tags :: "pyval \<Rightarrow> tags \<Rightarrow> tags" where
  "check_geom_tags g t =
     (if g = PyStr ''01''
      then setitem ''fixme:geometry'' ''check if the building is cut on regional border'' t
      else t)"

definition check_geom_stage :: "attrs \<Rightarrow> tags \<Rightarrow> py_error + tags" where
  "check_geom_stage attrs t =
     bind_err (getitem attrs ''check_geom'') (\<lambda>g. Inr (check_geom_tags g t))"

text \<open>
  \<^verbatim>\<open>
  match attrs["edifc_stat"]:
      case "01":
          if tags["building"] != "yes":
              tags["construction"] = tags["building"]
          tags["building"] = "construction"
          tags["fixme:building"] = "resurvey construction type and status"
      case "02":
          tags["ruins"] = "yes"
          tags["fixme:building"] = "resurvey status"
  \<close>
  Reading \<open>tags["building"]\<close> raises \<open>KeyError\<close> when the key is not there.
\<close>

definition edifc_stat_case :: "pyval \<Rightarrow> tags \<Rightarrow> py_error + tags" where
  "edifc_stat_case v t =
     (if v = PyStr ''01'' then
        (case map_of t ''building'' of
           None \<Rightarrow> Inl (KeyError ''building'')
         | Some b \<Rightarrow>
             Inr (setitems
                    [(''building'', ''construction''),
                     (''fixme:building'', ''resurvey construction type and status'')]
                    (if b \<noteq> ''yes'' then setitem ''construction'' b t else t)))
      else if v = PyStr ''02'' then
        Inr (setitems [(''ruins'', ''yes''), (''fixme:building'', ''resurvey status'')] t)
      else Inr t)"

definition edifc_stat_stage :: "attrs \<Rightarrow> tags \<Rightarrow> py_error + tags" where
  "edifc_stat_stage attrs t =
     bind_err (getitem attrs ''edifc_stat'') (\<lambda>stat. edifc_stat_case stat t)"

text \<open>
  The statements of \<open>filter_tags\<close> from \<open>tags = {}\<close> up to, and without, the last
  \<open>match\<close>: the tag set that the status stage receives.
\<close>

definition tags_before_stat :: "attrs \<Rightarrow> py_error + tags" where
  "tags_before_stat attrs =
     bind_err (edifc_nome_stage attrs []) (\<lambda>t1.
     bind_err (edifc_sot_stage attrs t1) (\<lambda>t2.
     bind_err (edifc_ty_stage attrs t2) (\<lambda>t3.
     bind_err (edifc_uso_stage attrs t3) (\<lambda>t4.
       check_geom_stage attrs t4))))"

text \<open>
  The whole function. \<open>if not attrs: return\<close> gives \<open>None\<close> for \<open>None\<close> and for the
  empty dictionary; the last statement is \<open>return tags\<close>.
\<close>

definition filter_tags :: "attrs option \<Rightarrow> py_error + tags option" where
  "filter_tags a =
     (case a of
        None \<Rightarrow> Inr None
      | Some attrs \<Rightarrow>
          if attrs = [] then Inr None
          else bind_err (tags_before_stat attrs) (\<lambda>t5.
               bind_err (edifc_stat_stage attrs t5) (\<lambda>t6. Inr (Some t6))))"

section \<open>Dictionaries as item lists\<close>

lemma map_of_setitem: "map_of (setitem k v t) = (map_of t)(k \<mapsto> v)"
  by (induction t) (auto simp: fun_eq_iff)

lemma map_of_setitems_add: "map_of (setitems ws t) = map_of t ++ map_of (rev ws)"
proof (induction ws arbitrary: t)
  case Nil
  show ?case by simp
next
  case (Cons w ws)
  have "map_of (setitems (w # ws) t) = map_of (setitem (fst w) (snd w) t) ++ map_of (rev ws)"
    using Cons.IH by simp
  also have "\<dots> = (map_of t)(fst w \<mapsto> snd w) ++ map_of (rev ws)"
    by (simp only: map_of_setitem)
  also have "\<dots> = map_of t ++ map_of (rev (w # ws))"
    by (cases w) (auto simp: fun_eq_iff map_add_def split: option.splits)
  finally show ?case .
qed

lemma map_of_setitems:
  "map_of (setitems ws t) k =
     (case map_of (setitems ws []) k of None \<Rightarrow> map_of t k | Some v \<Rightarrow> Some v)"
  by (simp add: map_of_setitems_add map_add_def)

lemma map_of_setitems_other:
  assumes "k \<notin> fst ` set ws"
  shows "map_of (setitems ws t) k = map_of t k"
proof -
  have "map_of (rev ws) k = None"
    using assms by (simp add: map_of_eq_None_iff)
  then show ?thesis
    by (simp add: map_of_setitems_add map_add_def)
qed

lemma match_case_cases:
  "match_case cs d v = d \<or> (\<exists>c \<in> set cs. v \<in> PyStr ` set (fst c) \<and> match_case cs d v = snd c)"
  by (induction cs) auto

lemma match_case_all:
  assumes "P d" and "\<forall>c \<in> set cs. P (snd c)"
  shows "P (match_case cs d v)"
  using assms match_case_cases [of cs d v] by auto

lemma match_case_default:
  "v \<notin> PyStr ` set (concat (map fst cs)) \<Longrightarrow> match_case cs d v = d"
  by (induction cs) auto

lemma edifc_uso_case_keys: "fst ` set (edifc_uso_case v) \<subseteq> set [''building'', ''amenity'', ''office'', ''admin_level'', ''healthcare'', ''fixme:classify'',
    ''aeroway'', ''public_transport'', ''parking'', ''railway'', ''aerialway'', ''shop'', ''utility'',
    ''man_made'', ''tourism'', ''leisure'', ''indoor'']"
  unfolding edifc_uso_case_def
  by (rule match_case_all) (simp_all add: edifc_uso_cases_def)

lemma edifc_ty_case_keys: "fst ` set (edifc_ty_case v) \<subseteq>
  set [''building'', ''man_made'', ''tower:type'', ''layer'', ''defensive_works'', ''historic'']"
  unfolding edifc_ty_case_def
  by (rule match_case_all) (simp_all add: edifc_ty_cases_def)

lemma edifc_ty_case_building: "\<exists>b. map_of (setitems (edifc_ty_case v) []) ''building'' = Some b"
  unfolding edifc_ty_case_def
  by (rule match_case_all) (simp_all add: edifc_ty_cases_def)

section \<open>Names that lower-case to the sentinel\<close>

lemma lower_eq_Nil_iff: "lower s = [] \<longleftrightarrow> s = []"
  by (cases s) simp_all

lemma lower_char_eq_u: "lower_char c = CHR ''u'' \<longleftrightarrow> c = CHR ''U'' \<or> c = CHR ''u''"
  by (auto simp: lower_char_def)

lemma lower_char_eq_n: "lower_char c = CHR ''n'' \<longleftrightarrow> c = CHR ''N'' \<or> c = CHR ''n''"
  by (auto simp: lower_char_def)

lemma lower_char_eq_k: "lower_char c = CHR ''k'' \<longleftrightarrow> c = CHR ''K'' \<or> c = CHR ''k''"
  by (auto simp: lower_char_def)

lemma take2_drop2_Nil: "take 2 cs = [a, b] \<Longrightarrow> drop 2 cs = [] \<Longrightarrow> cs = [a, b]"
  using append_take_drop_id [of 2 cs] by simp

lemma lower_eq_k_iff:
  "lower s = ''k'' \<longleftrightarrow> s = ''K'' \<or> s = ''k'' \<or> s = [CHR 0xE2, CHR 0x84, CHR 0xAA]"
proof (cases s)
  case Nil
  then show ?thesis by simp
next
  case (Cons c cs)
  show ?thesis
  proof (cases "c = CHR 0xE2 \<and> take 2 cs = [CHR 0x84, CHR 0xAA]")
    case True
    then have "lower s = ''k'' \<longleftrightarrow> drop 2 cs = []"
      by (simp add: Cons lower_eq_Nil_iff)
    also have "\<dots> \<longleftrightarrow> cs = [CHR 0x84, CHR 0xAA]"
      using True take2_drop2_Nil [of cs "CHR 0x84" "CHR 0xAA"] by auto
    finally show ?thesis using True by (auto simp: Cons)
  next
    case False
    then have ne: "s \<noteq> [CHR 0xE2, CHR 0x84, CHR 0xAA]"
      by (auto simp: Cons)
    from False have "lower s = ''k'' \<longleftrightarrow> lower_char c = CHR ''k'' \<and> cs = []"
      by (auto simp: Cons lower_eq_Nil_iff)
    with ne show ?thesis
      by (auto simp: Cons lower_char_eq_k)
  qed
qed

lemma lower_eq_Cons_n_iff:
  "lower s = CHR ''n'' # r \<longleftrightarrow> (\<exists>c cs. s = c # cs \<and> (c = CHR ''N'' \<or> c = CHR ''n'') \<and> lower cs = r)"
  by (cases s) (auto simp: lower_char_eq_n)

lemma lower_eq_Cons_u_iff:
  "lower s = CHR ''u'' # r \<longleftrightarrow> (\<exists>c cs. s = c # cs \<and> (c = CHR ''U'' \<or> c = CHR ''u'') \<and> lower cs = r)"
  by (cases s) (auto simp: lower_char_eq_u)

lemma lower_eq_unk_iff:
  "lower n = ''unk'' \<longleftrightarrow>
     n \<in> set [u @ m @ k. u \<leftarrow> [''U'', ''u''], m \<leftarrow> [''N'', ''n''],
                         k \<leftarrow> [''K'', ''k'', [CHR 0xE2, CHR 0x84, CHR 0xAA]]]"
  by (auto simp: lower_eq_Cons_u_iff lower_eq_Cons_n_iff lower_eq_k_iff)

section \<open>When a stage returns\<close>

lemma bind_err_Inr_iff: "bind_err m f = Inr y \<longleftrightarrow> (\<exists>x. m = Inr x \<and> f x = Inr y)"
  by (cases m) auto

lemma getitem_Inr_iff: "getitem attrs k = Inr v \<longleftrightarrow> map_of attrs k = Some v"
  by (simp add: getitem_def split: option.splits)

lemma edifc_nome_tags_Inr_iff:
  "edifc_nome_tags nome t = Inr t' \<longleftrightarrow>
     (\<exists>n. nome = PyStr n \<and> t' = setitem ''name'' (if lower n = ''unk'' then '''' else n) t)"
  by (cases nome) (auto simp: edifc_nome_tags_def str_lower_def)

lemma edifc_nome_stage_Inr_iff:
  "edifc_nome_stage attrs t = Inr t' \<longleftrightarrow>
     (\<exists>n. map_of attrs ''edifc_nome'' = Some (PyStr n) \<and>
          t' = setitem ''name'' (if lower n = ''unk'' then '''' else n) t)"
  by (auto simp: edifc_nome_stage_def bind_err_Inr_iff getitem_Inr_iff edifc_nome_tags_Inr_iff)

lemma edifc_sot_stage_Inr_iff:
  "edifc_sot_stage attrs t = Inr t' \<longleftrightarrow>
     (\<exists>sot. map_of attrs ''edifc_sot'' = Some sot \<and> t' = edifc_sot_tags sot t)"
  by (auto simp: edifc_sot_stage_def bind_err_Inr_iff getitem_Inr_iff)

lemma edifc_ty_stage_Inr_iff:
  "edifc_ty_stage attrs t = Inr t' \<longleftrightarrow>
     (\<exists>ty. map_of attrs ''edifc_ty'' = Some ty \<and> t' = setitems (edifc_ty_case ty) t)"
  by (auto simp: edifc_ty_stage_def bind_err_Inr_iff getitem_Inr_iff)

lemma edifc_uso_stage_Inr_iff:
  "edifc_uso_stage attrs t = Inr t' \<longleftrightarrow>
     (\<exists>uso. map_of attrs ''edifc_uso'' = Some uso \<and> t' = setitems (edifc_uso_case uso) t)"
  by (auto simp: edifc_uso_stage_def bind_err_Inr_iff getitem_Inr_iff)

lemma check_geom_stage_Inr_iff:
  "check_geom_stage attrs t = Inr t' \<longleftrightarrow>
     (\<exists>g. map_of attrs ''check_geom'' = Some g \<and> t' = check_geom_tags g t)"
  by (auto simp: check_geom_stage_def bind_err_Inr_iff getitem_Inr_iff)

lemma edifc_stat_stage_Inr_iff:
  "edifc_stat_stage attrs t = Inr t' \<longleftrightarrow>
     (\<exists>stat. map_of attrs ''edifc_stat'' = Some stat \<and> edifc_stat_case stat t = Inr t')"
  by (auto simp: edifc_stat_stage_def bind_err_Inr_iff getitem_Inr_iff)

lemma tags_before_stat_Inr_iff:
  "tags_before_stat attrs = Inr t5 \<longleftrightarrow>
     (\<exists>t1 t2 t3 t4.
        edifc_nome_stage attrs [] = Inr t1 \<and> edifc_sot_stage attrs t1 = Inr t2 \<and>
        edifc_ty_stage attrs t2 = Inr t3 \<and> edifc_uso_stage attrs t3 = Inr t4 \<and>
        check_geom_stage attrs t4 = Inr t5)"
  by (simp add: tags_before_stat_def bind_err_Inr_iff)

lemma filter_tags_Some_iff:
  "filter_tags (Some attrs) = Inr (Some t) \<longleftrightarrow>
     (\<exists>t5. tags_before_stat attrs = Inr t5 \<and> edifc_stat_stage attrs t5 = Inr t)"
proof (cases "attrs = []")
  case True
  then show ?thesis
    by (simp add: filter_tags_def edifc_stat_stage_def getitem_def)
next
  case False
  then show ?thesis
    by (auto simp: filter_tags_def bind_err_Inr_iff)
qed

section \<open>The tag set before the status stage\<close>

lemma map_of_uso_other:
  assumes "k \<notin> set [''building'', ''amenity'', ''office'', ''admin_level'', ''healthcare'',
    ''fixme:classify'', ''aeroway'', ''public_transport'', ''parking'', ''railway'', ''aerialway'',
    ''shop'', ''utility'', ''man_made'', ''tourism'', ''leisure'', ''indoor'']"
  shows "map_of (setitems (edifc_uso_case v) t) k = map_of t k"
  using assms edifc_uso_case_keys [of v] by (intro map_of_setitems_other) blast

lemma map_of_ty_other:
  assumes "k \<notin> set [''building'', ''man_made'', ''tower:type'', ''layer'', ''defensive_works'',
    ''historic'']"
  shows "map_of (setitems (edifc_ty_case v) t) k = map_of t k"
  using assms edifc_ty_case_keys [of v] by (intro map_of_setitems_other) blast

lemma tags_before_stat_eq:
  "tags_before_stat attrs = Inr t5 \<longleftrightarrow>
     (\<exists>n sot ty uso g.
        map_of attrs ''edifc_nome'' = Some (PyStr n) \<and>
        map_of attrs ''edifc_sot'' = Some sot \<and>
        map_of attrs ''edifc_ty'' = Some ty \<and>
        map_of attrs ''edifc_uso'' = Some uso \<and>
        map_of attrs ''check_geom'' = Some g \<and>
        t5 = check_geom_tags g
               (setitems (edifc_uso_case uso)
                 (setitems (edifc_ty_case ty)
                   (edifc_sot_tags sot
                     (setitem ''name'' (if lower n = ''unk'' then '''' else n) [])))))"
  unfolding tags_before_stat_Inr_iff edifc_nome_stage_Inr_iff edifc_sot_stage_Inr_iff
    edifc_ty_stage_Inr_iff edifc_uso_stage_Inr_iff check_geom_stage_Inr_iff
  by blast

lemma tags_before_statE:
  assumes "tags_before_stat attrs = Inr t5"
  obtains n sot ty uso g where
    "map_of attrs ''edifc_nome'' = Some (PyStr n)"
    "map_of attrs ''edifc_sot'' = Some sot"
    "map_of attrs ''edifc_ty'' = Some ty"
    "map_of attrs ''edifc_uso'' = Some uso"
    "map_of attrs ''check_geom'' = Some g"
    "t5 = check_geom_tags g
               (setitems (edifc_uso_case uso)
                 (setitems (edifc_ty_case ty)
                   (edifc_sot_tags sot
                     (setitem ''name'' (if lower n = ''unk'' then '''' else n) []))))"
  using assms unfolding tags_before_stat_eq by blast

lemma map_of_check_geom_tags:
  "map_of (check_geom_tags g t) k =
     (if g = PyStr ''01'' \<and> k = ''fixme:geometry''
      then Some ''check if the building is cut on regional border'' else map_of t k)"
  by (simp add: check_geom_tags_def map_of_setitem)

lemma map_of_edifc_sot_tags:
  "map_of (edifc_sot_tags sot t) k =
     (if sot = PyStr ''02'' \<and> k = ''location'' then Some ''underground''
      else if sot = PyStr ''02'' \<and> k = ''building:levels'' then Some ''0''
      else if sot = PyStr ''02'' \<and> k = ''fixme:buildind''
        then Some ''Check location, if not verifiable remove geometry''
      else map_of t k)"
  by (simp add: edifc_sot_tags_def map_of_setitem)

lemma before_stat_name:
  assumes "tags_before_stat attrs = Inr t5" and "map_of attrs ''edifc_nome'' = Some (PyStr n)"
  shows "map_of t5 ''name'' = Some (if lower n = ''unk'' then '''' else n)"
proof -
  from assms(1) obtain n' sot ty uso g where
    "map_of attrs ''edifc_nome'' = Some (PyStr n')" and
    t5: "t5 = check_geom_tags g
               (setitems (edifc_uso_case uso)
                 (setitems (edifc_ty_case ty)
                   (edifc_sot_tags sot
                     (setitem ''name'' (if lower n' = ''unk'' then '''' else n') []))))"
    by (rule tags_before_statE)
  with assms(2) have "n' = n" by simp
  show ?thesis
    unfolding t5 \<open>n' = n\<close>
    by (simp add: map_of_check_geom_tags map_of_edifc_sot_tags map_of_setitem
        map_of_uso_other map_of_ty_other)
qed

lemma before_stat_building:
  assumes "tags_before_stat attrs = Inr t5"
    and "map_of attrs ''edifc_ty'' = Some ty" and "map_of attrs ''edifc_uso'' = Some uso"
  shows "map_of t5 ''building'' =
     (case map_of (setitems (edifc_uso_case uso) []) ''building'' of
        Some b \<Rightarrow> Some b
      | None \<Rightarrow> map_of (setitems (edifc_ty_case ty) []) ''building'')"
proof -
  from assms(1) obtain n sot ty' uso' g where
    "map_of attrs ''edifc_ty'' = Some ty'" and "map_of attrs ''edifc_uso'' = Some uso'" and
    t5: "t5 = check_geom_tags g
               (setitems (edifc_uso_case uso')
                 (setitems (edifc_ty_case ty')
                   (edifc_sot_tags sot
                     (setitem ''name'' (if lower n = ''unk'' then '''' else n) []))))"
    by (rule tags_before_statE)
  with assms(2,3) have eq: "ty' = ty" "uso' = uso" by simp_all
  define t2 where "t2 = edifc_sot_tags sot (setitem ''name'' (if lower n = ''unk'' then '''' else n) [])"
  define t3 where "t3 = setitems (edifc_ty_case ty) t2"
  obtain b0 where b0: "map_of (setitems (edifc_ty_case ty) []) ''building'' = Some b0"
    using edifc_ty_case_building [of ty] by blast
  have "map_of t3 ''building'' =
      (case map_of (setitems (edifc_ty_case ty) []) ''building'' of
         None \<Rightarrow> map_of t2 ''building'' | Some v \<Rightarrow> Some v)"
    unfolding t3_def by (rule map_of_setitems)
  then have t3: "map_of t3 ''building'' = map_of (setitems (edifc_ty_case ty) []) ''building''"
    by (simp only: b0 option.case)
  have "map_of t5 ''building'' = map_of (setitems (edifc_uso_case uso) t3) ''building''"
    unfolding t5 eq t3_def t2_def by (simp add: map_of_check_geom_tags)
  also have "\<dots> = (case map_of (setitems (edifc_uso_case uso) []) ''building'' of
         None \<Rightarrow> map_of t3 ''building'' | Some v \<Rightarrow> Some v)"
    by (rule map_of_setitems)
  also have "\<dots> = (case map_of (setitems (edifc_uso_case uso) []) ''building'' of
        Some b \<Rightarrow> Some b
      | None \<Rightarrow> map_of (setitems (edifc_ty_case ty) []) ''building'')"
    by (simp only: t3)
  finally show ?thesis .
qed

lemma before_stat_has_building:
  assumes "tags_before_stat attrs = Inr t5"
  shows "\<exists>b. map_of t5 ''building'' = Some b"
proof -
  from assms obtain ty uso where ty: "map_of attrs ''edifc_ty'' = Some ty"
    and uso: "map_of attrs ''edifc_uso'' = Some uso"
    unfolding tags_before_stat_eq by blast
  obtain b0 where "map_of (setitems (edifc_ty_case ty) []) ''building'' = Some b0"
    using edifc_ty_case_building [of ty] by blast
  with before_stat_building [OF assms ty uso]
  show ?thesis by (cases "map_of (setitems (edifc_uso_case uso) []) ''building''") simp_all
qed

lemma before_stat_underground:
  assumes "tags_before_stat attrs = Inr t5" and "map_of attrs ''edifc_sot'' = Some (PyStr ''02'')"
  shows "map_of t5 ''location'' = Some ''underground''"
    and "map_of t5 ''building:levels'' = Some ''0''"
    and "map_of t5 ''fixme:buildind'' = Some ''Check location, if not verifiable remove geometry''"
proof -
  from assms(1) obtain n sot ty uso g where
    "map_of attrs ''edifc_sot'' = Some sot" and
    t5: "t5 = check_geom_tags g
               (setitems (edifc_uso_case uso)
                 (setitems (edifc_ty_case ty)
                   (edifc_sot_tags sot
                     (setitem ''name'' (if lower n = ''unk'' then '''' else n) []))))"
    by (rule tags_before_statE)
  with assms(2) have sot: "sot = PyStr ''02''" by simp
  show "map_of t5 ''location'' = Some ''underground''"
    unfolding t5 sot
    by (simp add: map_of_check_geom_tags map_of_edifc_sot_tags map_of_uso_other map_of_ty_other)
  show "map_of t5 ''building:levels'' = Some ''0''"
    unfolding t5 sot
    by (simp add: map_of_check_geom_tags map_of_edifc_sot_tags map_of_uso_other map_of_ty_other)
  show "map_of t5 ''fixme:buildind'' = Some ''Check location, if not verifiable remove geometry''"
    unfolding t5 sot
    by (simp add: map_of_check_geom_tags map_of_edifc_sot_tags map_of_uso_other map_of_ty_other)
qed

lemma before_stat_no_status_keys:
  assumes "tags_before_stat attrs = Inr t5"
  shows "map_of t5 ''construction'' = None" and "map_of t5 ''ruins'' = None"
    and "map_of t5 ''fixme:building'' = None"
proof -
  from assms(1) obtain n sot ty uso g where
    t5: "t5 = check_geom_tags g
               (setitems (edifc_uso_case uso)
                 (setitems (edifc_ty_case ty)
                   (edifc_sot_tags sot
                     (setitem ''name'' (if lower n = ''unk'' then '''' else n) []))))"
    by (rule tags_before_statE)
  show "map_of t5 ''construction'' = None"
    unfolding t5
    by (simp add: map_of_check_geom_tags map_of_edifc_sot_tags map_of_setitem
        map_of_uso_other map_of_ty_other)
  show "map_of t5 ''ruins'' = None"
    unfolding t5
    by (simp add: map_of_check_geom_tags map_of_edifc_sot_tags map_of_setitem
        map_of_uso_other map_of_ty_other)
  show "map_of t5 ''fixme:building'' = None"
    unfolding t5
    by (simp add: map_of_check_geom_tags map_of_edifc_sot_tags map_of_setitem
        map_of_uso_other map_of_ty_other)
qed

section \<open>The status stage and the whole function\<close>

lemma edifc_stat_case_01:
  assumes "map_of t5 ''building'' = Some b"
  shows "edifc_stat_case (PyStr ''01'') t5 =
     Inr (setitems
            [(''building'', ''construction''),
             (''fixme:building'', ''resurvey construction type and status'')]
            (if b \<noteq> ''yes'' then setitem ''construction'' b t5 else t5))"
  using assms by (simp add: edifc_stat_case_def)

lemma edifc_stat_case_02:
  "edifc_stat_case (PyStr ''02'') t5 =
     Inr (setitems [(''ruins'', ''yes''), (''fixme:building'', ''resurvey status'')] t5)"
  by (simp add: edifc_stat_case_def)

lemma edifc_stat_case_other:
  "st \<noteq> PyStr ''01'' \<Longrightarrow> st \<noteq> PyStr ''02'' \<Longrightarrow> edifc_stat_case st t5 = Inr t5"
  by (simp add: edifc_stat_case_def)

lemma edifc_stat_case_Inl_iff:
  "edifc_stat_case st t5 = Inl e \<longleftrightarrow>
     st = PyStr ''01'' \<and> map_of t5 ''building'' = None \<and> e = KeyError ''building''"
  by (auto simp: edifc_stat_case_def split: option.splits)

lemma edifc_stat_case_keeps:
  assumes "edifc_stat_case st t5 = Inr t"
    and "k \<notin> set [''construction'', ''building'', ''ruins'', ''fixme:building'']"
  shows "map_of t k = map_of t5 k"
  using assms
  by (auto simp: edifc_stat_case_def map_of_setitem split: if_splits option.splits)

lemma filter_tags_SomeE:
  assumes "filter_tags (Some attrs) = Inr (Some t)"
  obtains t5 st where "tags_before_stat attrs = Inr t5"
    and "map_of attrs ''edifc_stat'' = Some st" and "edifc_stat_case st t5 = Inr t"
  using assms unfolding filter_tags_Some_iff edifc_stat_stage_Inr_iff by blast

lemmas filter_tags_eval =
  filter_tags_def tags_before_stat_def edifc_nome_stage_def edifc_nome_tags_def
  edifc_sot_stage_def edifc_sot_tags_def edifc_ty_stage_def edifc_ty_case_def edifc_ty_cases_def
  edifc_uso_stage_def edifc_uso_case_def edifc_uso_cases_def check_geom_stage_def
  check_geom_tags_def edifc_stat_stage_def edifc_stat_case_def getitem_def str_lower_def
  lower_char_def

lemma bind_err_Inl_iff:
  "bind_err m f = Inl e \<longleftrightarrow> m = Inl e \<or> (\<exists>x. m = Inr x \<and> f x = Inl e)"
  by (cases m) auto

lemma getitem_Inl_iff: "getitem attrs k = Inl e \<longleftrightarrow> map_of attrs k = None \<and> e = KeyError k"
  by (auto simp: getitem_def split: option.splits)

lemma edifc_nome_tags_Inl_iff: "edifc_nome_tags nome t = Inl e \<longleftrightarrow> nome = PyNone \<and> e = TypeError"
  by (cases nome) (auto simp: edifc_nome_tags_def str_lower_def)

lemma tags_before_stat_Inl:
  assumes "tags_before_stat attrs = Inl e"
  shows "e \<noteq> KeyError ''building''"
  using assms
  by (auto simp: tags_before_stat_def bind_err_Inl_iff edifc_nome_stage_def edifc_sot_stage_def
      edifc_ty_stage_def edifc_uso_stage_def check_geom_stage_def getitem_Inl_iff
      edifc_nome_tags_Inl_iff)

lemma filter_tags_name:
  assumes "filter_tags (Some attrs) = Inr (Some t)"
    and "map_of attrs ''edifc_nome'' = Some (PyStr n)"
  shows "map_of t ''name'' = Some (if lower n = ''unk'' then '''' else n)"
proof -
  from assms(1) obtain t5 st where t5: "tags_before_stat attrs = Inr t5"
    and st: "edifc_stat_case st t5 = Inr t"
    by (rule filter_tags_SomeE)
  have "map_of t ''name'' = map_of t5 ''name''"
    using st by (rule edifc_stat_case_keeps) simp
  also have "\<dots> = Some (if lower n = ''unk'' then '''' else n)"
    using t5 assms(2) by (rule before_stat_name)
  finally show ?thesis .
qed

lemma filter_tags_building:
  assumes "filter_tags (Some attrs) = Inr (Some t)"
    and "map_of attrs ''edifc_ty'' = Some ty"
    and "map_of attrs ''edifc_uso'' = Some uso"
    and "map_of attrs ''edifc_stat'' = Some st"
  shows "map_of t ''building'' =
     (if st = PyStr ''01'' then Some ''construction''
      else case map_of (setitems (edifc_uso_case uso) []) ''building'' of
             Some b \<Rightarrow> Some b
           | None \<Rightarrow> map_of (setitems (edifc_ty_case ty) []) ''building'')"
proof -
  from assms(1) obtain t5 st' where t5: "tags_before_stat attrs = Inr t5"
    and "map_of attrs ''edifc_stat'' = Some st'" and st': "edifc_stat_case st' t5 = Inr t"
    by (rule filter_tags_SomeE)
  with assms(4) have st: "edifc_stat_case st t5 = Inr t" by simp
  obtain b where b: "map_of t5 ''building'' = Some b"
    using before_stat_has_building [OF t5] by blast
  show ?thesis
  proof (cases "st = PyStr ''01''")
    case True
    with st b show ?thesis
      by (auto simp: edifc_stat_case_def map_of_setitem)
  next
    case False
    with st have "map_of t ''building'' = map_of t5 ''building''"
      by (auto simp: edifc_stat_case_def map_of_setitem split: if_splits)
    with False before_stat_building [OF t5 assms(2,3)] show ?thesis by simp
  qed
qed


lemma edifc_ty_case_cases:
  "v \<notin> set (map PyStr [''04'', ''07'', ''10'', ''11'', ''14'', ''16'', ''19'', ''21'', ''22'', ''23'',
        ''24'', ''25'']) \<and> edifc_ty_case v = [(''building'', ''yes'')] \<or>
   v = PyStr ''04'' \<and> edifc_ty_case v = [(''building'', ''house'')] \<or>
   v = PyStr ''07'' \<and> edifc_ty_case v =
     [(''building'', ''tower''), (''man_made'', ''tower''), (''tower:type'', ''bell_tower'')] \<or>
   v = PyStr ''10'' \<and> edifc_ty_case v = [(''building'', ''castle'')] \<or>
   v = PyStr ''11'' \<and> edifc_ty_case v = [(''building'', ''church'')] \<or>
   v = PyStr ''14'' \<and> edifc_ty_case v = [(''building'', ''hangar'')] \<or>
   v = PyStr ''16'' \<and> edifc_ty_case v = [(''building'', ''temple'')] \<or>
   v = PyStr ''19'' \<and> edifc_ty_case v = [(''building'', ''sports_hall'')] \<or>
   v = PyStr ''21'' \<and> edifc_ty_case v = [(''building'', ''stadium'')] \<or>
   v = PyStr ''22'' \<and> edifc_ty_case v = [(''building'', ''cathedral'')] \<or>
   v = PyStr ''23'' \<and> edifc_ty_case v = [(''building'', ''roof''), (''layer'', ''1'')] \<or>
   v = PyStr ''24'' \<and> edifc_ty_case v =
     [(''building'', ''yes''), (''defensive_works'', ''bastion'')] \<or>
   v = PyStr ''25'' \<and> edifc_ty_case v = [(''building'', ''yes''), (''historic'', ''citywalls'')]"
proof (cases "v \<in> set (map PyStr [''04'', ''07'', ''10'', ''11'', ''14'', ''16'', ''19'', ''21'', ''22'',
        ''23'', ''24'', ''25''])")
  case False
  then have "v \<notin> PyStr ` set (concat (map fst edifc_ty_cases))"
    by (simp add: edifc_ty_cases_def)
  then have "edifc_ty_case v = [(''building'', ''yes'')]"
    unfolding edifc_ty_case_def by (rule match_case_default)
  with False show ?thesis by blast
next
  case True
  then show ?thesis
    by (auto simp: edifc_ty_case_def edifc_ty_cases_def)
qed



lemma filter_tags_complete:
  assumes "map_of attrs ''edifc_nome'' = Some (PyStr n)"
    and "\<forall>k \<in> set [''edifc_sot'', ''edifc_ty'', ''edifc_uso'', ''check_geom'', ''edifc_stat''].
           map_of attrs k \<noteq> None"
  shows "\<exists>t. filter_tags (Some attrs) = Inr (Some t)"
proof -
  from assms(2) obtain sot ty uso g st where f:
    "map_of attrs ''edifc_sot'' = Some sot" "map_of attrs ''edifc_ty'' = Some ty"
    "map_of attrs ''edifc_uso'' = Some uso" "map_of attrs ''check_geom'' = Some g"
    "map_of attrs ''edifc_stat'' = Some st"
    by auto
  from assms(1) f(1-4) obtain t5 where t5: "tags_before_stat attrs = Inr t5"
    unfolding tags_before_stat_eq by blast
  then obtain b where "map_of t5 ''building'' = Some b"
    using before_stat_has_building by blast
  then have "\<exists>t. edifc_stat_case st t5 = Inr t"
    by (simp add: edifc_stat_case_def)
  with t5 f(5) show ?thesis
    unfolding filter_tags_Some_iff edifc_stat_stage_Inr_iff by blast
qed

section \<open>Precedence of the writers of the building tag\<close>

text \<open>
  C1. On every record that has its six fields, with a string for the name,
  \<open>filter_tags\<close> returns a tag set, and in it: when the branch taken by
  \<open>match attrs["edifc_uso"]\<close> assigns \<open>tags["building"]\<close>, \<open>building\<close> has that value,
  whatever the branch of \<open>match attrs["edifc_ty"]\<close> had assigned; except that with
  \<open>edifc_stat\<close> equal to \<open>"01"\<close> the value is \<open>construction\<close>, whatever the other two
  fields are.
\<close>

theorem use_overrides_type_unless_construction:
  assumes "map_of attrs ''edifc_nome'' = Some (PyStr n)"
    and "map_of attrs ''edifc_sot'' = Some sot"
    and "map_of attrs ''edifc_ty'' = Some ty"
    and "map_of attrs ''edifc_uso'' = Some uso"
    and "map_of attrs ''check_geom'' = Some g"
    and "map_of attrs ''edifc_stat'' = Some st"
  shows "\<exists>t. filter_tags (Some attrs) = Inr (Some t) \<and>
           (st = PyStr ''01'' \<longrightarrow> map_of t ''building'' = Some ''construction'') \<and>
           (st \<noteq> PyStr ''01'' \<longrightarrow>
              (\<forall>b. map_of (setitems (edifc_uso_case uso) []) ''building'' = Some b \<longrightarrow>
                   map_of t ''building'' = Some b))"
proof -
  have "\<forall>k \<in> set [''edifc_sot'', ''edifc_ty'', ''edifc_uso'', ''check_geom'', ''edifc_stat''].
          map_of attrs k \<noteq> None"
    using assms(2-6) by simp
  with assms(1) obtain t where t: "filter_tags (Some attrs) = Inr (Some t)"
    using filter_tags_complete by blast
  from filter_tags_building [OF t assms(3,4,6)]
  have "(st = PyStr ''01'' \<longrightarrow> map_of t ''building'' = Some ''construction'') \<and>
        (st \<noteq> PyStr ''01'' \<longrightarrow>
           (\<forall>b. map_of (setitems (edifc_uso_case uso) []) ''building'' = Some b \<longrightarrow>
                map_of t ''building'' = Some b))"
    by auto
  with t show ?thesis by blast
qed

theorem use_overrides_type_unless_construction_witness:
  "(\<exists>t. filter_tags (Some [(''edifc_nome'', PyStr ''Municipio''), (''edifc_sot'', PyStr ''01''),
      (''edifc_ty'', PyStr ''10''), (''edifc_uso'', PyStr ''02''), (''check_geom'', PyStr ''''),
      (''edifc_stat'', PyStr ''91'')]) = Inr (Some t) \<and>
      map_of t ''building'' = Some ''office'') \<and>
   (\<exists>t. filter_tags (Some [(''edifc_nome'', PyStr ''Municipio''), (''edifc_sot'', PyStr ''01''),
      (''edifc_ty'', PyStr ''10''), (''edifc_uso'', PyStr ''02''), (''check_geom'', PyStr ''''),
      (''edifc_stat'', PyStr ''01'')]) = Inr (Some t) \<and>
      map_of t ''building'' = Some ''construction'') \<and>
   map_of (setitems (edifc_ty_case (PyStr ''10'')) []) ''building'' = Some ''castle'' \<and>
   map_of (setitems (edifc_uso_case (PyStr ''02'')) []) ''building'' = Some ''office'' \<and>
   filter_tags (Some [(''edifc_nome'', PyStr ''Municipio''), (''edifc_sot'', PyStr ''01''),
      (''edifc_ty'', PyStr ''10''), (''edifc_uso'', PyStr ''02''), (''check_geom'', PyStr ''''),
      (''edifc_stat'', PyStr ''91'')]) =
     Inr (Some [(''name'', ''Municipio''), (''building'', ''office'')]) \<and>
   filter_tags (Some [(''edifc_nome'', PyStr ''Municipio''), (''edifc_sot'', PyStr ''01''),
      (''edifc_ty'', PyStr ''10''), (''edifc_uso'', PyStr ''02''), (''check_geom'', PyStr ''''),
      (''edifc_stat'', PyStr ''01'')]) =
     Inr (Some [(''name'', ''Municipio''), (''building'', ''construction''),
       (''construction'', ''office''),
       (''fixme:building'', ''resurvey construction type and status'')])"
proof -
  have c: "map_of (setitems (edifc_ty_case (PyStr ''10'')) []) ''building'' = Some ''castle''"
    "map_of (setitems (edifc_uso_case (PyStr ''02'')) []) ''building'' = Some ''office''"
    by (simp_all add: edifc_ty_case_def edifc_ty_cases_def edifc_uso_case_def edifc_uso_cases_def)
  have n: "PyStr ''91'' \<noteq> PyStr ''01''"
    by simp
  have 1: "\<exists>t. filter_tags (Some [(''edifc_nome'', PyStr ''Municipio''),
      (''edifc_sot'', PyStr ''01''), (''edifc_ty'', PyStr ''10''), (''edifc_uso'', PyStr ''02''),
      (''check_geom'', PyStr ''''), (''edifc_stat'', PyStr ''91'')]) = Inr (Some t) \<and>
      map_of t ''building'' = Some ''office''"
    using use_overrides_type_unless_construction [of
        "[(''edifc_nome'', PyStr ''Municipio''), (''edifc_sot'', PyStr ''01''),
          (''edifc_ty'', PyStr ''10''), (''edifc_uso'', PyStr ''02''), (''check_geom'', PyStr ''''),
          (''edifc_stat'', PyStr ''91'')]"
        "''Municipio''" "PyStr ''01''" "PyStr ''10''" "PyStr ''02''" "PyStr ''''" "PyStr ''91''"]
      c(2) n
    by simp
  have 2: "\<exists>t. filter_tags (Some [(''edifc_nome'', PyStr ''Municipio''),
      (''edifc_sot'', PyStr ''01''), (''edifc_ty'', PyStr ''10''), (''edifc_uso'', PyStr ''02''),
      (''check_geom'', PyStr ''''), (''edifc_stat'', PyStr ''01'')]) = Inr (Some t) \<and>
      map_of t ''building'' = Some ''construction''"
    using use_overrides_type_unless_construction [of
        "[(''edifc_nome'', PyStr ''Municipio''), (''edifc_sot'', PyStr ''01''),
          (''edifc_ty'', PyStr ''10''), (''edifc_uso'', PyStr ''02''), (''check_geom'', PyStr ''''),
          (''edifc_stat'', PyStr ''01'')]"
        "''Municipio''" "PyStr ''01''" "PyStr ''10''" "PyStr ''02''" "PyStr ''''" "PyStr ''01''"]
    by simp
  have r1: "filter_tags (Some [(''edifc_nome'', PyStr ''Municipio''), (''edifc_sot'', PyStr ''01''),
      (''edifc_ty'', PyStr ''10''), (''edifc_uso'', PyStr ''02''), (''check_geom'', PyStr ''''),
      (''edifc_stat'', PyStr ''91'')]) =
     Inr (Some [(''name'', ''Municipio''), (''building'', ''office'')])"
    by (simp add: filter_tags_eval)
  have r2: "filter_tags (Some [(''edifc_nome'', PyStr ''Municipio''), (''edifc_sot'', PyStr ''01''),
      (''edifc_ty'', PyStr ''10''), (''edifc_uso'', PyStr ''02''), (''check_geom'', PyStr ''''),
      (''edifc_stat'', PyStr ''01'')]) =
     Inr (Some [(''name'', ''Municipio''), (''building'', ''construction''),
       (''construction'', ''office''),
       (''fixme:building'', ''resurvey construction type and status'')])"
    by (simp add: filter_tags_eval)
  from 1 2 c r1 r2 show ?thesis by blast
qed

section \<open>When \<open>filter_tags\<close> returns\<close>




section \<open>The absent record\<close>

text \<open>
  C3. When the host supplies no attribute record (\<open>None\<close>, or the empty dictionary),
  \<open>filter_tags\<close> returns \<open>None\<close>: no tag dictionary at all, which is not the same as
  the empty tag dictionary.
\<close>

theorem filter_tags_no_record:
  "filter_tags None = Inr None \<and> filter_tags (Some []) = Inr None \<and>
   filter_tags None \<noteq> Inr (Some []) \<and> filter_tags (Some []) \<noteq> Inr (Some [])"
  by (simp add: filter_tags_def)

section \<open>Buildings under construction\<close>

text \<open>
  C4, as the code has it. With \<open>edifc_stat\<close> equal to \<open>"01"\<close>: the value that
  \<open>building\<close> has before the last \<open>match\<close>, unless it is \<open>yes\<close>, is stored under
  \<open>construction\<close>; \<open>building\<close> becomes \<open>construction\<close>; the note under
  \<open>fixme:building\<close> is written in both cases. With \<open>edifc_ty\<close> \<open>"07"\<close> the stored
  value is \<open>tower\<close> when the branch taken for \<open>edifc_uso\<close> assigns no \<open>building\<close>;
  when it assigns one, that one is stored.
\<close>

theorem construction_keeps_building_type:
  assumes "tags_before_stat attrs = Inr t5"
    and "map_of attrs ''edifc_stat'' = Some (PyStr ''01'')"
  shows "\<exists>t b. filter_tags (Some attrs) = Inr (Some t) \<and>
           map_of t5 ''building'' = Some b \<and>
           (b \<noteq> ''yes'' \<longrightarrow> map_of t ''construction'' = Some b) \<and>
           map_of t ''building'' = Some ''construction'' \<and>
           map_of t ''fixme:building'' = Some ''resurvey construction type and status'' \<and>
           (map_of attrs ''edifc_ty'' = Some (PyStr ''07'') \<and>
            (\<exists>uso. map_of attrs ''edifc_uso'' = Some uso \<and>
                   map_of (setitems (edifc_uso_case uso) []) ''building'' = None) \<longrightarrow>
              map_of t ''construction'' = Some ''tower'')"
proof -
  obtain b where b: "map_of t5 ''building'' = Some b"
    using before_stat_has_building [OF assms(1)] by blast
  define t where "t = setitems
            [(''building'', ''construction''),
             (''fixme:building'', ''resurvey construction type and status'')]
            (if b \<noteq> ''yes'' then setitem ''construction'' b t5 else t5)"
  have "edifc_stat_case (PyStr ''01'') t5 = Inr t"
    unfolding t_def using b by (rule edifc_stat_case_01)
  with assms have ret: "filter_tags (Some attrs) = Inr (Some t)"
    unfolding filter_tags_Some_iff edifc_stat_stage_Inr_iff by blast
  have c: "b \<noteq> ''yes'' \<longrightarrow> map_of t ''construction'' = Some b"
    by (simp add: t_def map_of_setitem)
  have bc: "map_of t ''building'' = Some ''construction''"
    by (simp add: t_def map_of_setitem)
  have f: "map_of t ''fixme:building'' = Some ''resurvey construction type and status''"
    by (simp add: t_def map_of_setitem)
  have tower: "map_of t ''construction'' = Some ''tower''"
    if ty: "map_of attrs ''edifc_ty'' = Some (PyStr ''07'')"
      and uso: "map_of attrs ''edifc_uso'' = Some uso"
      and none: "map_of (setitems (edifc_uso_case uso) []) ''building'' = None" for uso
  proof -
    have "map_of (setitems (edifc_ty_case (PyStr ''07'')) []) ''building'' = Some ''tower''"
      by (simp add: edifc_ty_case_def edifc_ty_cases_def)
    with before_stat_building [OF assms(1) ty uso] none b have "b = ''tower''"
      by simp
    with c show ?thesis by simp
  qed
  from ret b c bc f tower show ?thesis by blast
qed

theorem construction_keeps_building_type_witness:
  "tags_before_stat [(''edifc_nome'', PyStr ''Torre''), (''edifc_sot'', PyStr ''01''),
      (''edifc_ty'', PyStr ''07''), (''edifc_uso'', PyStr ''05''), (''check_geom'', PyStr ''''),
      (''edifc_stat'', PyStr ''01'')] =
     Inr [(''name'', ''Torre''), (''building'', ''tower''), (''man_made'', ''tower''),
       (''tower:type'', ''bell_tower''), (''amenity'', ''place_of_worship'')] \<and>
   filter_tags (Some [(''edifc_nome'', PyStr ''Torre''), (''edifc_sot'', PyStr ''01''),
      (''edifc_ty'', PyStr ''07''), (''edifc_uso'', PyStr ''05''), (''check_geom'', PyStr ''''),
      (''edifc_stat'', PyStr ''01'')]) =
     Inr (Some [(''name'', ''Torre''), (''building'', ''construction''), (''man_made'', ''tower''),
       (''tower:type'', ''bell_tower''), (''amenity'', ''place_of_worship''),
       (''construction'', ''tower''),
       (''fixme:building'', ''resurvey construction type and status'')]) \<and>
   (\<exists>t. filter_tags (Some [(''edifc_nome'', PyStr ''Torre''), (''edifc_sot'', PyStr ''01''),
      (''edifc_ty'', PyStr ''07''), (''edifc_uso'', PyStr ''05''), (''check_geom'', PyStr ''''),
      (''edifc_stat'', PyStr ''01'')]) = Inr (Some t) \<and>
      map_of t ''construction'' = Some ''tower'' \<and> map_of t ''building'' = Some ''construction'')"
proof -
  have b: "tags_before_stat [(''edifc_nome'', PyStr ''Torre''), (''edifc_sot'', PyStr ''01''),
      (''edifc_ty'', PyStr ''07''), (''edifc_uso'', PyStr ''05''), (''check_geom'', PyStr ''''),
      (''edifc_stat'', PyStr ''01'')] =
     Inr [(''name'', ''Torre''), (''building'', ''tower''), (''man_made'', ''tower''),
       (''tower:type'', ''bell_tower''), (''amenity'', ''place_of_worship'')]"
    by (simp add: filter_tags_eval)
  have r: "filter_tags (Some [(''edifc_nome'', PyStr ''Torre''), (''edifc_sot'', PyStr ''01''),
      (''edifc_ty'', PyStr ''07''), (''edifc_uso'', PyStr ''05''), (''check_geom'', PyStr ''''),
      (''edifc_stat'', PyStr ''01'')]) =
     Inr (Some [(''name'', ''Torre''), (''building'', ''construction''), (''man_made'', ''tower''),
       (''tower:type'', ''bell_tower''), (''amenity'', ''place_of_worship''),
       (''construction'', ''tower''),
       (''fixme:building'', ''resurvey construction type and status'')])"
    by (simp add: filter_tags_eval)
  have s: "map_of [(''edifc_nome'', PyStr ''Torre''), (''edifc_sot'', PyStr ''01''),
      (''edifc_ty'', PyStr ''07''), (''edifc_uso'', PyStr ''05''), (''check_geom'', PyStr ''''),
      (''edifc_stat'', PyStr ''01'')] ''edifc_stat'' = Some (PyStr ''01'')"
    by simp
  have y: "map_of [(''edifc_nome'', PyStr ''Torre''), (''edifc_sot'', PyStr ''01''),
      (''edifc_ty'', PyStr ''07''), (''edifc_uso'', PyStr ''05''), (''check_geom'', PyStr ''''),
      (''edifc_stat'', PyStr ''01'')] ''edifc_ty'' = Some (PyStr ''07'')"
    by simp
  have u: "map_of [(''edifc_nome'', PyStr ''Torre''), (''edifc_sot'', PyStr ''01''),
      (''edifc_ty'', PyStr ''07''), (''edifc_uso'', PyStr ''05''), (''check_geom'', PyStr ''''),
      (''edifc_stat'', PyStr ''01'')] ''edifc_uso'' = Some (PyStr ''05'') \<and>
      map_of (setitems (edifc_uso_case (PyStr ''05'')) []) ''building'' = None"
    by (simp add: edifc_uso_case_def edifc_uso_cases_def)
  from construction_keeps_building_type [OF b s] y u
  have "\<exists>t. filter_tags (Some [(''edifc_nome'', PyStr ''Torre''), (''edifc_sot'', PyStr ''01''),
      (''edifc_ty'', PyStr ''07''), (''edifc_uso'', PyStr ''05''), (''check_geom'', PyStr ''''),
      (''edifc_stat'', PyStr ''01'')]) = Inr (Some t) \<and>
      map_of t ''construction'' = Some ''tower'' \<and> map_of t ''building'' = Some ''construction''"
    by blast
  with b r show ?thesis by blast
qed

theorem construction_of_tower_with_office_use_counterexample:
  "filter_tags (Some [(''edifc_nome'', PyStr ''Torre''), (''edifc_sot'', PyStr ''01''),
      (''edifc_ty'', PyStr ''07''), (''edifc_uso'', PyStr ''02''), (''check_geom'', PyStr ''''),
      (''edifc_stat'', PyStr ''01'')]) =
     Inr (Some [(''name'', ''Torre''), (''building'', ''construction''), (''man_made'', ''tower''),
       (''tower:type'', ''bell_tower''), (''construction'', ''office''),
       (''fixme:building'', ''resurvey construction type and status'')]) \<and>
   map_of [(''name'', ''Torre''), (''building'', ''construction''), (''man_made'', ''tower''),
       (''tower:type'', ''bell_tower''), (''construction'', ''office''),
       (''fixme:building'', ''resurvey construction type and status'')] ''construction''
     \<noteq> Some ''tower''"
  by (simp add: filter_tags_eval)

section \<open>The table of building types\<close>

text \<open>
  C5, as the code has it. Every branch of \<open>match attrs["edifc_ty"]\<close> assigns
  \<open>building\<close> once, first. The statement has twelve literal cases. Ten of them give a
  value other than \<open>yes\<close>; \<open>"24"\<close> and \<open>"25"\<close> give \<open>yes\<close>, with one more tag.
  Four cases assign more tags than \<open>building\<close>: \<open>"07"\<close> two, \<open>"23"\<close>, \<open>"24"\<close> and
  \<open>"25"\<close> one each. Every other subject takes \<open>case _\<close>, which assigns
  \<open>building=yes\<close> and nothing else.
\<close>

theorem structural_classifier_table:
  "length (filter (\<lambda>w. fst w = ''building'') (edifc_ty_case v)) = 1 \<and>
   fst (hd (edifc_ty_case v)) = ''building'' \<and>
   (v \<notin> set (map PyStr [''04'', ''07'', ''10'', ''11'', ''14'', ''16'', ''19'', ''21'', ''22'', ''23'',
        ''24'', ''25'']) \<longrightarrow> edifc_ty_case v = [(''building'', ''yes'')]) \<and>
   (v \<in> set (map PyStr [''04'', ''07'', ''10'', ''11'', ''14'', ''16'', ''19'', ''21'', ''22'', ''23''])
      \<longrightarrow> (\<exists>b. map_of (edifc_ty_case v) ''building'' = Some b \<and> b \<noteq> ''yes'')) \<and>
   (v \<in> set (map PyStr [''24'', ''25'']) \<longrightarrow>
      map_of (edifc_ty_case v) ''building'' = Some ''yes'') \<and>
   (length (edifc_ty_case v) = 1 \<longleftrightarrow> v \<notin> set (map PyStr [''07'', ''23'', ''24'', ''25''])) \<and>
   (length (edifc_ty_case v) = 2 \<longleftrightarrow> v \<in> set (map PyStr [''23'', ''24'', ''25''])) \<and>
   (length (edifc_ty_case v) = 3 \<longleftrightarrow> v = PyStr ''07'')"
proof (intro conjI)
  note c = edifc_ty_case_cases [of v]
  show "length (filter (\<lambda>w. fst w = ''building'') (edifc_ty_case v)) = 1"
    using c by (elim disjE conjE) simp_all
  show "fst (hd (edifc_ty_case v)) = ''building''"
    using c by (elim disjE conjE) simp_all
  show "v \<notin> set (map PyStr [''04'', ''07'', ''10'', ''11'', ''14'', ''16'', ''19'', ''21'', ''22'',
        ''23'', ''24'', ''25'']) \<longrightarrow> edifc_ty_case v = [(''building'', ''yes'')]"
    using c by (elim disjE conjE) simp_all
  show "v \<in> set (map PyStr [''04'', ''07'', ''10'', ''11'', ''14'', ''16'', ''19'', ''21'', ''22'',
        ''23'']) \<longrightarrow> (\<exists>b. map_of (edifc_ty_case v) ''building'' = Some b \<and> b \<noteq> ''yes'')"
    using c by (elim disjE conjE) simp_all
  show "v \<in> set (map PyStr [''24'', ''25'']) \<longrightarrow>
      map_of (edifc_ty_case v) ''building'' = Some ''yes''"
    using c by (elim disjE conjE) simp_all
  show "length (edifc_ty_case v) = 1 \<longleftrightarrow> v \<notin> set (map PyStr [''07'', ''23'', ''24'', ''25''])"
    using c by (elim disjE conjE) simp_all
  show "length (edifc_ty_case v) = 2 \<longleftrightarrow> v \<in> set (map PyStr [''23'', ''24'', ''25''])"
    using c by (elim disjE conjE) simp_all
  show "length (edifc_ty_case v) = 3 \<longleftrightarrow> v = PyStr ''07''"
    using c by (elim disjE conjE) simp_all
qed

theorem structural_classifier_table_witness:
  "PyStr ''99'' \<notin> set (map PyStr [''04'', ''07'', ''10'', ''11'', ''14'', ''16'', ''19'', ''21'',
        ''22'', ''23'', ''24'', ''25'']) \<and>
   edifc_ty_case (PyStr ''99'') = [(''building'', ''yes'')] \<and>
   PyStr ''24'' \<in> set (map PyStr [''24'', ''25'']) \<and>
   map_of (edifc_ty_case (PyStr ''24'')) ''building'' = Some ''yes'' \<and>
   length (edifc_ty_case (PyStr ''24'')) = 2"
proof -
  have a: "PyStr ''99'' \<notin> set (map PyStr [''04'', ''07'', ''10'', ''11'', ''14'', ''16'', ''19'',
        ''21'', ''22'', ''23'', ''24'', ''25''])"
    by simp
  have b: "PyStr ''24'' \<in> set (map PyStr [''24'', ''25''])"
    "PyStr ''24'' \<in> set (map PyStr [''23'', ''24'', ''25''])"
    by simp_all
  from structural_classifier_table [of "PyStr ''99''"] structural_classifier_table [of "PyStr ''24''"]
    a b
  show ?thesis by blast
qed

theorem four_type_codes_with_more_tags_counterexample:
  "edifc_ty_case (PyStr ''07'') =
     [(''building'', ''tower''), (''man_made'', ''tower''), (''tower:type'', ''bell_tower'')] \<and>
   edifc_ty_case (PyStr ''23'') = [(''building'', ''roof''), (''layer'', ''1'')] \<and>
   edifc_ty_case (PyStr ''24'') = [(''building'', ''yes''), (''defensive_works'', ''bastion'')] \<and>
   edifc_ty_case (PyStr ''25'') = [(''building'', ''yes''), (''historic'', ''citywalls'')]"
  by (simp add: edifc_ty_case_def edifc_ty_cases_def)

section \<open>The name tag\<close>

text \<open>
  C6. On every record that has its six fields, with a string for the name,
  \<open>filter_tags\<close> returns a tag set, and in it: when the lower-case form of
  \<open>edifc_nome\<close> is \<open>"unk"\<close>, \<open>name\<close> has the empty value; for every other name,
  \<open>name\<close> has the field value as it came, not lower-cased. The names whose lower-case
  form is \<open>"unk"\<close> are the twelve spellings with \<open>U\<close> or \<open>u\<close>, then \<open>N\<close> or \<open>n\<close>, then
  \<open>K\<close>, \<open>k\<close> or the Kelvin sign; \<open>"UNK"\<close>, \<open>"unk"\<close> and \<open>"Unk"\<close> are among them.
\<close>

theorem name_unk_or_verbatim:
  assumes "map_of attrs ''edifc_nome'' = Some (PyStr n)"
    and "\<forall>k \<in> set [''edifc_sot'', ''edifc_ty'', ''edifc_uso'', ''check_geom'', ''edifc_stat''].
           map_of attrs k \<noteq> None"
  shows "(\<exists>t. filter_tags (Some attrs) = Inr (Some t) \<and>
            map_of t ''name'' = Some (if lower n = ''unk'' then '''' else n)) \<and>
         (lower n = ''unk'' \<longleftrightarrow>
            n \<in> set [u @ m @ k. u \<leftarrow> [''U'', ''u''], m \<leftarrow> [''N'', ''n''],
                                k \<leftarrow> [''K'', ''k'', [CHR 0xE2, CHR 0x84, CHR 0xAA]]]) \<and>
         lower ''UNK'' = ''unk'' \<and> lower ''unk'' = ''unk'' \<and> lower ''Unk'' = ''unk''"
proof -
  from assms obtain t where t: "filter_tags (Some attrs) = Inr (Some t)"
    using filter_tags_complete by blast
  have "map_of t ''name'' = Some (if lower n = ''unk'' then '''' else n)"
    using t assms(1) by (rule filter_tags_name)
  with t have "\<exists>t. filter_tags (Some attrs) = Inr (Some t) \<and>
            map_of t ''name'' = Some (if lower n = ''unk'' then '''' else n)"
    by blast
  moreover have "lower ''UNK'' = ''unk'' \<and> lower ''unk'' = ''unk'' \<and> lower ''Unk'' = ''unk''"
    by (simp add: lower_char_def)
  ultimately show ?thesis
    using lower_eq_unk_iff [of n] by blast
qed

theorem name_unk_or_verbatim_witness:
  "(\<exists>t. filter_tags (Some [(''edifc_nome'', PyStr ''Unk''), (''edifc_sot'', PyStr ''01''),
      (''edifc_ty'', PyStr ''11''), (''edifc_uso'', PyStr ''05''), (''check_geom'', PyStr ''''),
      (''edifc_stat'', PyStr ''91'')]) = Inr (Some t) \<and> map_of t ''name'' = Some '''') \<and>
   (\<exists>t. filter_tags (Some [(''edifc_nome'', PyStr [CHR ''U'', CHR ''N'', CHR 0xE2, CHR 0x84, CHR 0xAA]),
      (''edifc_sot'', PyStr ''01''), (''edifc_ty'', PyStr ''11''), (''edifc_uso'', PyStr ''05''),
      (''check_geom'', PyStr ''''), (''edifc_stat'', PyStr ''91'')]) = Inr (Some t) \<and>
      map_of t ''name'' = Some '''') \<and>
   (\<exists>t. filter_tags (Some [(''edifc_nome'', PyStr ''Duomo di Orvieto''),
      (''edifc_sot'', PyStr ''01''), (''edifc_ty'', PyStr ''22''), (''edifc_uso'', PyStr ''''),
      (''check_geom'', PyStr ''''), (''edifc_stat'', PyStr ''91'')]) = Inr (Some t) \<and>
      map_of t ''name'' = Some ''Duomo di Orvieto'') \<and>
   filter_tags (Some [(''edifc_nome'', PyStr [CHR ''U'', CHR ''N'', CHR 0xE2, CHR 0x84, CHR 0xAA]),
      (''edifc_sot'', PyStr ''01''), (''edifc_ty'', PyStr ''11''), (''edifc_uso'', PyStr ''05''),
      (''check_geom'', PyStr ''''), (''edifc_stat'', PyStr ''91'')]) =
     Inr (Some [(''name'', ''''), (''building'', ''church''), (''amenity'', ''place_of_worship'')]) \<and>
   filter_tags (Some [(''edifc_nome'', PyStr ''Duomo di Orvieto''),
      (''edifc_sot'', PyStr ''01''), (''edifc_ty'', PyStr ''22''), (''edifc_uso'', PyStr ''''),
      (''check_geom'', PyStr ''''), (''edifc_stat'', PyStr ''91'')]) =
     Inr (Some [(''name'', ''Duomo di Orvieto''), (''building'', ''cathedral'')])"
proof -
  have l: "lower ''Unk'' = ''unk''"
    "lower [CHR ''U'', CHR ''N'', CHR 0xE2, CHR 0x84, CHR 0xAA] = ''unk''"
    "lower ''Duomo di Orvieto'' \<noteq> ''unk''"
    by (simp_all add: lower_char_def)
  have 1: "\<exists>t. filter_tags (Some [(''edifc_nome'', PyStr ''Unk''), (''edifc_sot'', PyStr ''01''),
      (''edifc_ty'', PyStr ''11''), (''edifc_uso'', PyStr ''05''), (''check_geom'', PyStr ''''),
      (''edifc_stat'', PyStr ''91'')]) = Inr (Some t) \<and> map_of t ''name'' = Some ''''"
    using name_unk_or_verbatim [of
        "[(''edifc_nome'', PyStr ''Unk''), (''edifc_sot'', PyStr ''01''),
          (''edifc_ty'', PyStr ''11''), (''edifc_uso'', PyStr ''05''), (''check_geom'', PyStr ''''),
          (''edifc_stat'', PyStr ''91'')]" "''Unk''"] l(1)
    by (simp add: lower_char_def)
  have 2: "\<exists>t. filter_tags (Some [(''edifc_nome'',
        PyStr [CHR ''U'', CHR ''N'', CHR 0xE2, CHR 0x84, CHR 0xAA]),
      (''edifc_sot'', PyStr ''01''), (''edifc_ty'', PyStr ''11''), (''edifc_uso'', PyStr ''05''),
      (''check_geom'', PyStr ''''), (''edifc_stat'', PyStr ''91'')]) = Inr (Some t) \<and>
      map_of t ''name'' = Some ''''"
    using name_unk_or_verbatim [of
        "[(''edifc_nome'', PyStr [CHR ''U'', CHR ''N'', CHR 0xE2, CHR 0x84, CHR 0xAA]),
          (''edifc_sot'', PyStr ''01''), (''edifc_ty'', PyStr ''11''), (''edifc_uso'', PyStr ''05''),
          (''check_geom'', PyStr ''''), (''edifc_stat'', PyStr ''91'')]"
        "[CHR ''U'', CHR ''N'', CHR 0xE2, CHR 0x84, CHR 0xAA]"] l(2)
    by (simp add: lower_char_def)
  have 3: "\<exists>t. filter_tags (Some [(''edifc_nome'', PyStr ''Duomo di Orvieto''),
      (''edifc_sot'', PyStr ''01''), (''edifc_ty'', PyStr ''22''), (''edifc_uso'', PyStr ''''),
      (''check_geom'', PyStr ''''), (''edifc_stat'', PyStr ''91'')]) = Inr (Some t) \<and>
      map_of t ''name'' = Some ''Duomo di Orvieto''"
    using name_unk_or_verbatim [of
        "[(''edifc_nome'', PyStr ''Duomo di Orvieto''),
          (''edifc_sot'', PyStr ''01''), (''edifc_ty'', PyStr ''22''), (''edifc_uso'', PyStr ''''),
          (''check_geom'', PyStr ''''), (''edifc_stat'', PyStr ''91'')]" "''Duomo di Orvieto''"] l(3)
    by (simp add: lower_char_def)
  have r2: "filter_tags (Some [(''edifc_nome'',
        PyStr [CHR ''U'', CHR ''N'', CHR 0xE2, CHR 0x84, CHR 0xAA]),
      (''edifc_sot'', PyStr ''01''), (''edifc_ty'', PyStr ''11''), (''edifc_uso'', PyStr ''05''),
      (''check_geom'', PyStr ''''), (''edifc_stat'', PyStr ''91'')]) =
     Inr (Some [(''name'', ''''), (''building'', ''church''), (''amenity'', ''place_of_worship'')])"
    by (simp add: filter_tags_eval)
  have r3: "filter_tags (Some [(''edifc_nome'', PyStr ''Duomo di Orvieto''),
      (''edifc_sot'', PyStr ''01''), (''edifc_ty'', PyStr ''22''), (''edifc_uso'', PyStr ''''),
      (''check_geom'', PyStr ''''), (''edifc_stat'', PyStr ''91'')]) =
     Inr (Some [(''name'', ''Duomo di Orvieto''), (''building'', ''cathedral'')])"
    by (simp add: filter_tags_eval)
  from 1 2 3 r2 r3 show ?thesis by blast
qed

section \<open>The underground flag\<close>

text \<open>
  C7, as the code has it. With \<open>edifc_sot\<close> equal to \<open>"02"\<close>, every tag set returned
  has \<open>location=underground\<close>, \<open>building:levels=0\<close> and the note under
  \<open>fixme:buildind\<close>, whatever the other fields are. With any other value of the field,
  \<open>None\<close> included, the statement leaves the tag set as it was. A record without the key
  \<open>edifc_sot\<close> is another matter: \<open>attrs["edifc_sot"]\<close> raises \<open>KeyError\<close>.
\<close>

theorem underground_flag:
  "(map_of attrs ''edifc_sot'' = Some (PyStr ''02'') \<and> filter_tags (Some attrs) = Inr (Some t) \<longrightarrow>
      map_of t ''location'' = Some ''underground'' \<and>
      map_of t ''building:levels'' = Some ''0'' \<and>
      map_of t ''fixme:buildind'' = Some ''Check location, if not verifiable remove geometry'') \<and>
   (map_of attrs ''edifc_sot'' = Some sot \<and> sot \<noteq> PyStr ''02'' \<longrightarrow>
      edifc_sot_stage attrs t0 = Inr t0) \<and>
   (map_of attrs ''edifc_sot'' = None \<longrightarrow>
      edifc_sot_stage attrs t0 = Inl (KeyError ''edifc_sot''))"
proof (intro conjI impI)
  assume "map_of attrs ''edifc_sot'' = Some (PyStr ''02'') \<and> filter_tags (Some attrs) = Inr (Some t)"
  then have sot: "map_of attrs ''edifc_sot'' = Some (PyStr ''02'')"
    and ret: "filter_tags (Some attrs) = Inr (Some t)"
    by simp_all
  from ret obtain t5 st where t5: "tags_before_stat attrs = Inr t5"
    and st: "edifc_stat_case st t5 = Inr t"
    by (rule filter_tags_SomeE)
  have "map_of t ''location'' = map_of t5 ''location''"
    using st by (rule edifc_stat_case_keeps) simp
  then show "map_of t ''location'' = Some ''underground''"
    using before_stat_underground(1) [OF t5 sot] by simp
  have "map_of t ''building:levels'' = map_of t5 ''building:levels''"
    using st by (rule edifc_stat_case_keeps) simp
  then show "map_of t ''building:levels'' = Some ''0''"
    using before_stat_underground(2) [OF t5 sot] by simp
  have "map_of t ''fixme:buildind'' = map_of t5 ''fixme:buildind''"
    using st by (rule edifc_stat_case_keeps) simp
  then show "map_of t ''fixme:buildind'' = Some ''Check location, if not verifiable remove geometry''"
    using before_stat_underground(3) [OF t5 sot] by simp
next
  assume "map_of attrs ''edifc_sot'' = Some sot \<and> sot \<noteq> PyStr ''02''"
  then show "edifc_sot_stage attrs t0 = Inr t0"
    by (simp add: edifc_sot_stage_def getitem_def edifc_sot_tags_def)
next
  assume "map_of attrs ''edifc_sot'' = None"
  then show "edifc_sot_stage attrs t0 = Inl (KeyError ''edifc_sot'')"
    by (simp add: edifc_sot_stage_def getitem_def)
qed

theorem underground_flag_witness:
  "filter_tags (Some [(''edifc_nome'', PyStr ''Cisterna''), (''edifc_sot'', PyStr ''02''),
      (''edifc_ty'', PyStr ''''), (''edifc_uso'', PyStr ''''), (''check_geom'', PyStr ''''),
      (''edifc_stat'', PyStr ''91'')]) =
     Inr (Some [(''name'', ''Cisterna''), (''location'', ''underground''),
       (''building:levels'', ''0''),
       (''fixme:buildind'', ''Check location, if not verifiable remove geometry''),
       (''building'', ''yes'')]) \<and>
   edifc_sot_stage [(''edifc_nome'', PyStr ''Casa''), (''edifc_sot'', PyNone)] [(''name'', ''Casa'')] =
     Inr [(''name'', ''Casa'')] \<and>
   edifc_sot_stage [(''edifc_nome'', PyStr ''Casa'')] [(''name'', ''Casa'')] =
     Inl (KeyError ''edifc_sot'')"
proof -
  have r: "filter_tags (Some [(''edifc_nome'', PyStr ''Cisterna''), (''edifc_sot'', PyStr ''02''),
      (''edifc_ty'', PyStr ''''), (''edifc_uso'', PyStr ''''), (''check_geom'', PyStr ''''),
      (''edifc_stat'', PyStr ''91'')]) =
     Inr (Some [(''name'', ''Cisterna''), (''location'', ''underground''),
       (''building:levels'', ''0''),
       (''fixme:buildind'', ''Check location, if not verifiable remove geometry''),
       (''building'', ''yes'')])"
    by (simp add: filter_tags_eval)
  have a: "map_of [(''edifc_nome'', PyStr ''Casa''), (''edifc_sot'', PyNone)] ''edifc_sot'' =
      Some PyNone \<and> PyNone \<noteq> PyStr ''02''"
    by simp
  have b: "map_of [(''edifc_nome'', PyStr ''Casa'')] ''edifc_sot'' = None"
    by simp
  from underground_flag [of "[(''edifc_nome'', PyStr ''Casa''), (''edifc_sot'', PyNone)]" _ PyNone
      "[(''name'', ''Casa'')]"] a
  have 1: "edifc_sot_stage [(''edifc_nome'', PyStr ''Casa''), (''edifc_sot'', PyNone)]
      [(''name'', ''Casa'')] = Inr [(''name'', ''Casa'')]"
    by blast
  from underground_flag [of "[(''edifc_nome'', PyStr ''Casa'')]" _ _ "[(''name'', ''Casa'')]"] b
  have 2: "edifc_sot_stage [(''edifc_nome'', PyStr ''Casa'')] [(''name'', ''Casa'')] =
     Inl (KeyError ''edifc_sot'')"
    by blast
  from r 1 2 show ?thesis by simp
qed

theorem underground_absent_flag_counterexample:
  "edifc_sot_stage
     [(''edifc_nome'', PyStr ''Casa''), (''edifc_ty'', PyStr ''04''), (''edifc_uso'', PyStr ''0901''),
      (''check_geom'', PyStr ''''), (''edifc_stat'', PyStr ''91'')]
     [(''name'', ''Casa'')] = Inl (KeyError ''edifc_sot'') \<and>
   filter_tags (Some
     [(''edifc_nome'', PyStr ''Casa''), (''edifc_ty'', PyStr ''04''), (''edifc_uso'', PyStr ''0901''),
      (''check_geom'', PyStr ''''), (''edifc_stat'', PyStr ''91'')]) = Inl (KeyError ''edifc_sot'')"
  by (simp add: filter_tags_eval)

section \<open>Status codes without a branch\<close>

text \<open>
  C8. When \<open>edifc_stat\<close> is neither \<open>"01"\<close> nor \<open>"02"\<close> (for one, the code \<open>"91"\<close>,
  whose branch is commented out), the last \<open>match\<close> changes nothing: the tag set returned
  is the one built before it, and it has none of the keys \<open>construction\<close>, \<open>ruins\<close>
  and \<open>fixme:building\<close>.
\<close>

theorem other_status_no_effect:
  assumes "map_of attrs ''edifc_stat'' = Some st"
    and "st \<noteq> PyStr ''01''" and "st \<noteq> PyStr ''02''"
  shows "edifc_stat_stage attrs t = Inr t \<and>
         edifc_stat_case (PyStr ''91'') t = Inr t \<and>
         (tags_before_stat attrs = Inr t \<longrightarrow>
            filter_tags (Some attrs) = Inr (Some t) \<and>
            map_of t ''construction'' = None \<and> map_of t ''ruins'' = None \<and>
            map_of t ''fixme:building'' = None)"
proof (intro conjI impI)
  show stage: "edifc_stat_stage attrs t = Inr t"
    using assms by (simp add: edifc_stat_stage_Inr_iff edifc_stat_case_other)
  show "edifc_stat_case (PyStr ''91'') t = Inr t"
    by (simp add: edifc_stat_case_other)
  assume before: "tags_before_stat attrs = Inr t"
  with stage show "filter_tags (Some attrs) = Inr (Some t)"
    unfolding filter_tags_Some_iff by blast
  from before show "map_of t ''construction'' = None" "map_of t ''ruins'' = None"
    "map_of t ''fixme:building'' = None"
    by (rule before_stat_no_status_keys)+
qed

theorem other_status_no_effect_witness:
  "map_of [(''edifc_nome'', PyStr ''Rocca''), (''edifc_sot'', PyStr ''01''),
      (''edifc_ty'', PyStr ''10''), (''edifc_uso'', PyStr ''100104''), (''check_geom'', PyStr ''01''),
      (''edifc_stat'', PyStr ''91'')] ''edifc_stat'' = Some (PyStr ''91'') \<and>
   tags_before_stat [(''edifc_nome'', PyStr ''Rocca''), (''edifc_sot'', PyStr ''01''),
      (''edifc_ty'', PyStr ''10''), (''edifc_uso'', PyStr ''100104''), (''check_geom'', PyStr ''01''),
      (''edifc_stat'', PyStr ''91'')] =
     Inr [(''name'', ''Rocca''), (''building'', ''castle''), (''tourism'', ''museum''),
       (''fixme:geometry'', ''check if the building is cut on regional border'')] \<and>
   filter_tags (Some [(''edifc_nome'', PyStr ''Rocca''), (''edifc_sot'', PyStr ''01''),
      (''edifc_ty'', PyStr ''10''), (''edifc_uso'', PyStr ''100104''), (''check_geom'', PyStr ''01''),
      (''edifc_stat'', PyStr ''91'')]) =
     Inr (Some [(''name'', ''Rocca''), (''building'', ''castle''), (''tourism'', ''museum''),
       (''fixme:geometry'', ''check if the building is cut on regional border'')])"
proof -
  have s: "map_of [(''edifc_nome'', PyStr ''Rocca''), (''edifc_sot'', PyStr ''01''),
      (''edifc_ty'', PyStr ''10''), (''edifc_uso'', PyStr ''100104''), (''check_geom'', PyStr ''01''),
      (''edifc_stat'', PyStr ''91'')] ''edifc_stat'' = Some (PyStr ''91'')"
    by simp
  have n: "PyStr ''91'' \<noteq> PyStr ''01''" "PyStr ''91'' \<noteq> PyStr ''02''"
    by simp_all
  have b: "tags_before_stat [(''edifc_nome'', PyStr ''Rocca''), (''edifc_sot'', PyStr ''01''),
      (''edifc_ty'', PyStr ''10''), (''edifc_uso'', PyStr ''100104''), (''check_geom'', PyStr ''01''),
      (''edifc_stat'', PyStr ''91'')] =
     Inr [(''name'', ''Rocca''), (''building'', ''castle''), (''tourism'', ''museum''),
       (''fixme:geometry'', ''check if the building is cut on regional border'')]"
    by (simp add: filter_tags_eval)
  from other_status_no_effect [OF s n, of "[(''name'', ''Rocca''), (''building'', ''castle''),
       (''tourism'', ''museum''),
       (''fixme:geometry'', ''check if the building is cut on regional border'')]"] s b
  show ?thesis by blast
qed

section \<open>Keys that are always there\<close>

text \<open>
  C9. Every tag set that \<open>filter_tags\<close> returns has the keys \<open>name\<close> and
  \<open>building\<close>. The tag set that reaches the status stage has the key \<open>building\<close>
  already, so the read of \<open>tags["building"]\<close> in the branch \<open>case "01"\<close> never
  raises \<open>KeyError\<close>.
\<close>

theorem name_and_building_present:
  "(filter_tags a = Inr (Some t) \<longrightarrow>
      ''name'' \<in> dom (map_of t) \<and> ''building'' \<in> dom (map_of t)) \<and>
   (tags_before_stat attrs = Inr t5 \<longrightarrow>
      ''building'' \<in> dom (map_of t5) \<and> edifc_stat_case st t5 \<noteq> Inl (KeyError ''building'')) \<and>
   filter_tags a \<noteq> Inl (KeyError ''building'')"
proof (intro conjI impI)
  assume ret: "filter_tags a = Inr (Some t)"
  then obtain attrs' where a: "a = Some attrs'"
    by (cases a) (simp_all add: filter_tags_def)
  from ret obtain t5' st' where t5': "tags_before_stat attrs' = Inr t5'"
    and st': "edifc_stat_case st' t5' = Inr t"
    unfolding a by (rule filter_tags_SomeE)
  from t5' obtain n where "map_of attrs' ''edifc_nome'' = Some (PyStr n)"
    by (rule tags_before_statE)
  with ret a have "map_of t ''name'' = Some (if lower n = ''unk'' then '''' else n)"
    using filter_tags_name by blast
  then show "''name'' \<in> dom (map_of t)" by blast
  from t5' obtain b where "map_of t5' ''building'' = Some b"
    using before_stat_has_building by blast
  with st' show "''building'' \<in> dom (map_of t)"
    by (auto simp: edifc_stat_case_def map_of_setitem split: if_splits)
next
  assume t5: "tags_before_stat attrs = Inr t5"
  then obtain b where b: "map_of t5 ''building'' = Some b"
    using before_stat_has_building by blast
  then show "''building'' \<in> dom (map_of t5)" by blast
  from b show "edifc_stat_case st t5 \<noteq> Inl (KeyError ''building'')"
    by (simp add: edifc_stat_case_Inl_iff)
next
  show "filter_tags a \<noteq> Inl (KeyError ''building'')"
  proof
    assume err: "filter_tags a = Inl (KeyError ''building'')"
    then obtain attrs' where a: "a = Some attrs'" and ne: "attrs' \<noteq> []"
      by (cases a) (auto simp: filter_tags_def split: if_splits)
    from err a ne consider
        "tags_before_stat attrs' = Inl (KeyError ''building'')"
      | t5' where "tags_before_stat attrs' = Inr t5'"
          "edifc_stat_stage attrs' t5' = Inl (KeyError ''building'')"
      by (auto simp: filter_tags_def bind_err_Inl_iff)
    then show False
    proof cases
      case 1
      then show False using tags_before_stat_Inl by blast
    next
      case 2
      from 2(1) obtain b where "map_of t5' ''building'' = Some b"
        using before_stat_has_building by blast
      with 2(2) show False
        by (auto simp: edifc_stat_stage_def bind_err_Inl_iff getitem_Inl_iff
            edifc_stat_case_Inl_iff)
    qed
  qed
qed

theorem name_and_building_present_witness:
  "filter_tags (Some [(''edifc_nome'', PyStr ''UNK''), (''edifc_sot'', PyStr ''01''),
      (''edifc_ty'', PyStr ''95''), (''edifc_uso'', PyStr ''''), (''check_geom'', PyStr ''''),
      (''edifc_stat'', PyStr ''01'')]) =
     Inr (Some [(''name'', ''''), (''building'', ''construction''),
       (''fixme:building'', ''resurvey construction type and status'')]) \<and>
   tags_before_stat [(''edifc_nome'', PyStr ''UNK''), (''edifc_sot'', PyStr ''01''),
      (''edifc_ty'', PyStr ''95''), (''edifc_uso'', PyStr ''''), (''check_geom'', PyStr ''''),
      (''edifc_stat'', PyStr ''01'')] = Inr [(''name'', ''''), (''building'', ''yes'')] \<and>
   ''name'' \<in> dom (map_of [(''name'', ''''), (''building'', ''construction''),
       (''fixme:building'', ''resurvey construction type and status'')]) \<and>
   ''building'' \<in> dom (map_of [(''name'', ''''), (''building'', ''construction''),
       (''fixme:building'', ''resurvey construction type and status'')]) \<and>
   ''building'' \<in> dom (map_of [(''name'', ''''), (''building'', ''yes'')]) \<and>
   edifc_stat_case (PyStr ''01'') [(''name'', ''''), (''building'', ''yes'')]
     \<noteq> Inl (KeyError ''building'')"
proof -
  have r: "filter_tags (Some [(''edifc_nome'', PyStr ''UNK''), (''edifc_sot'', PyStr ''01''),
      (''edifc_ty'', PyStr ''95''), (''edifc_uso'', PyStr ''''), (''check_geom'', PyStr ''''),
      (''edifc_stat'', PyStr ''01'')]) =
     Inr (Some [(''name'', ''''), (''building'', ''construction''),
       (''fixme:building'', ''resurvey construction type and status'')])"
    by (simp add: filter_tags_eval)
  have b: "tags_before_stat [(''edifc_nome'', PyStr ''UNK''), (''edifc_sot'', PyStr ''01''),
      (''edifc_ty'', PyStr ''95''), (''edifc_uso'', PyStr ''''), (''check_geom'', PyStr ''''),
      (''edifc_stat'', PyStr ''01'')] = Inr [(''name'', ''''), (''building'', ''yes'')]"
    by (simp add: filter_tags_eval)
  from name_and_building_present [of
      "Some [(''edifc_nome'', PyStr ''UNK''), (''edifc_sot'', PyStr ''01''),
        (''edifc_ty'', PyStr ''95''), (''edifc_uso'', PyStr ''''), (''check_geom'', PyStr ''''),
        (''edifc_stat'', PyStr ''01'')]"
      "[(''name'', ''''), (''building'', ''construction''),
        (''fixme:building'', ''resurvey construction type and status'')]"
      "[(''edifc_nome'', PyStr ''UNK''), (''edifc_sot'', PyStr ''01''),
        (''edifc_ty'', PyStr ''95''), (''edifc_uso'', PyStr ''''), (''check_geom'', PyStr ''''),
        (''edifc_stat'', PyStr ''01'')]"
      "[(''name'', ''''), (''building'', ''yes'')]" "PyStr ''01''"] r b
  show ?thesis by blast
qed

section \<open>The two fix-up keys\<close>



end
